theory Spec2Isabelle
  imports Main "HOL-Library.Word"
begin

section \<open>DNS messages\<close>

text \<open>
  The parts of \<^verbatim>\<open>dns.Msg\<close> that \<^verbatim>\<open>dns.go\<close> reads or writes. \<^verbatim>\<open>net.IP\<close> is a byte
  slice. The type switch of \<^verbatim>\<open>processReply\<close> distinguishes \<^verbatim>\<open>*dns.A\<close>, \<^verbatim>\<open>*dns.AAAA\<close>,
  \<^verbatim>\<open>*dns.CNAME\<close> and every other record type.
\<close>

type_synonym ip = "8 word list"

datatype rr = A ip | AAAA ip | CNAME string | OtherRR

record question =
  Name :: string
  Qtype :: "16 word"
  Qclass :: "16 word"

record msg =
  MsgId :: "16 word"
  Response :: bool
  Opcode :: int
  RecursionDesired :: bool
  Rcode :: int
  Compress :: bool
  Question :: "question list"
  Answer :: "rr list"
  UDPSize :: "16 word option"

text \<open>\<^verbatim>\<open>new(dns.Msg)\<close>: the zero message.\<close>

definition new_Msg :: msg where
  "new_Msg = \<lparr>MsgId = 0, Response = False, Opcode = 0, RecursionDesired = False,
     Rcode = 0, Compress = False, Question = [], Answer = [], UDPSize = None\<rparr>"

text \<open>
  \<^verbatim>\<open>reply.SetReply(req)\<close> of the DNS library: copies the id and the opcode, sets the
  response bit, copies the recursion-desired bit of a query (opcode 0), sets the
  return code to success (0) and copies the first question when there is one. The
  answer section of the receiver is not touched.
\<close>

definition SetReply :: "msg \<Rightarrow> msg \<Rightarrow> msg" where
  "SetReply m request =
     (let m1 = m\<lparr>MsgId := MsgId request, Response := True, Opcode := Opcode request\<rparr>;
          m2 = (if Opcode m1 = 0 then m1\<lparr>RecursionDesired := RecursionDesired request\<rparr> else m1);
          m3 = m2\<lparr>Rcode := 0\<rparr>
      in case Question request of [] \<Rightarrow> m3 | q # _ \<Rightarrow> m3\<lparr>Question := [q]\<rparr>)"

section \<open>The server's configuration\<close>

text \<open>
  The fields of \<^verbatim>\<open>Server\<close> that \<^verbatim>\<open>dns.go\<close> uses. The four membership capabilities are
  parameters; the two CIDR ones return \<^verbatim>\<open>(bool, error)\<close>, the second component here
  says that the error is not nil. \<^verbatim>\<open>Delay\<close> is a \<^verbatim>\<open>time.Duration\<close> (nanoseconds).
\<close>

type_synonym resolver = string

record server =
  DomainBlacklist :: "string \<Rightarrow> bool"
  DomainPolluted :: "string \<Rightarrow> bool"
  IPBlacklist :: "ip \<Rightarrow> bool \<times> bool"
  ChinaCIDR :: "ip \<Rightarrow> bool \<times> bool"
  Bidirectional :: bool
  TrustedServers :: "resolver list"
  UntrustedServers :: "resolver list"
  Delay :: int
  TCPOnly :: bool
  UDPMaxSize :: int

datatype cls = Trusted | Untrusted

fun servers :: "server \<Rightarrow> cls \<Rightarrow> resolver list" where
  "servers s Trusted = TrustedServers s"
| "servers s Untrusted = UntrustedServers s"

text \<open>
  Modelled from the spec: \<^verbatim>\<open>setUDPSize\<close> is not among the sources; the spec says that
  the UDP payload size is set on the request unless the server is TCP-only.
\<close>

definition setUDPSize :: "msg \<Rightarrow> 16 word \<Rightarrow> msg" where
  "setUDPSize req sz = req\<lparr>UDPSize := Some sz\<rparr>"

definition normalizeRequest :: "server \<Rightarrow> msg \<Rightarrow> msg" where
  "normalizeRequest s req =
     (let req1 = req\<lparr>RecursionDesired := True\<rparr>
      in if \<not> TCPOnly s then setUDPSize req1 (word_of_int (UDPMaxSize s)) else req1)"

section \<open>The answer classifier\<close>

text \<open>
  A channel argument is \<open>Some c\<close>, the result channel of class \<open>c\<close>, or \<open>None\<close>, the nil
  channel. The classifier either returns a reply or reaches its \<^verbatim>\<open>select\<close>: \<open>Select w rep ch\<close>
  says that \<^verbatim>\<open>processUntrustedAnswer\<close> (\<open>w = Untrusted\<close>) or \<^verbatim>\<open>processTrustedAnswer\<close>
  (\<open>w = Trusted\<close>) waits for a value on \<open>ch\<close> or for the context, holding \<open>rep\<close> as
  its reply so far.
\<close>

datatype verdict = Return msg | Select cls msg "cls option"

definition processUntrustedAnswer :: "server \<Rightarrow> msg \<Rightarrow> ip \<Rightarrow> cls option \<Rightarrow> verdict" where
  "processUntrustedAnswer s rep answer trusted =
     (let hit = fst (IPBlacklist s answer) in
      if hit then Select Untrusted rep trusted
      else let contain = fst (ChinaCIDR s answer) in
        if contain then Return rep
        else Select Untrusted rep trusted)"

definition processTrustedAnswer :: "server \<Rightarrow> msg \<Rightarrow> ip \<Rightarrow> cls option \<Rightarrow> verdict" where
  "processTrustedAnswer s rep answer untrusted =
     (let hit = fst (IPBlacklist s answer) in
      if hit then Select Trusted rep untrusted
      else if \<not> Bidirectional s then Return rep
      else let contain = fst (ChinaCIDR s answer) in
        if \<not> contain then Return rep
        else Select Trusted rep untrusted)"

text \<open>The loop of \<^verbatim>\<open>processReply\<close> over the answer records that are left.\<close>

fun processReply_loop :: "(msg \<Rightarrow> ip \<Rightarrow> verdict) \<Rightarrow> msg \<Rightarrow> rr list \<Rightarrow> verdict" where
  "processReply_loop process rep [] = Return rep"
| "processReply_loop process rep (A a # rest) = process rep a"
| "processReply_loop process rep (AAAA a # rest) = process rep a"
| "processReply_loop process rep (CNAME t # rest) =
     (if rest \<noteq> [] then processReply_loop process rep rest else Return rep)"
| "processReply_loop process rep (OtherRR # rest) = Return rep"

definition processReply ::
  "server \<Rightarrow> msg \<Rightarrow> cls option \<Rightarrow> (server \<Rightarrow> msg \<Rightarrow> ip \<Rightarrow> cls option \<Rightarrow> verdict) \<Rightarrow> verdict" where
  "processReply s rep other process =
     processReply_loop (\<lambda>r a. process s r a other) rep (Answer rep)"

text \<open>
  What the \<^verbatim>\<open>select\<close> of a classifier does with a value \<open>rep\<close> received on its channel:
  the nested \<^verbatim>\<open>processReply\<close> gets nil as its channel and the rule of the other class.
\<close>

fun select_received :: "server \<Rightarrow> cls \<Rightarrow> msg \<Rightarrow> verdict" where
  "select_received s Untrusted rep = processReply s rep None processTrustedAnswer"
| "select_received s Trusted rep = processReply s rep None processUntrustedAnswer"

section \<open>The state of one request\<close>

text \<open>
  One query task (\<^verbatim>\<open>doLookup\<close>): spawned, inside \<^verbatim>\<open>lookup\<close> with its copy of the request
  at an address of the store, blocked on the send to \<^verbatim>\<open>queryNext\<close> after a failure,
  before \<^verbatim>\<open>cancel()\<close> after a success, or finished.
\<close>

datatype tstate = T_Spawned | T_Lookup nat | T_Permit | T_Cancel | T_Done

type_synonym task = "resolver \<times> tstate"

text \<open>
  One \<^verbatim>\<open>lookupInServers\<close>: not spawned, spawned, at the \<^verbatim>\<open>select\<close> of the loop for the
  server of an index, at \<^verbatim>\<open>wg.Wait()\<close>, returned.
\<close>

datatype cpc = C_Absent | C_Spawned | C_Loop nat | C_Wait | C_Returned

text \<open>
  Per trust class: the child context's own cancellation, the result channel (one slot),
  the coordinator and its \<^verbatim>\<open>queryNext\<close> channel (a count of permits), ticker and wait
  group, and the tasks in admission order. \<open>sent\<close>, \<open>recvd\<close> and \<open>queries\<close> are history
  variables: the values placed on and taken from the result channel, and the resolvers
  \<^verbatim>\<open>lookup\<close> was called with.
\<close>

record side =
  ctx_canceled :: bool
  chan :: "msg option"
  pc :: cpc
  queryNext :: nat
  ticker_on :: bool
  tick :: bool
  wg :: nat
  tasks :: "task list"
  sent :: nat
  recvd :: nat
  queries :: "resolver list"

datatype suppc = Sup_Absent | Sup_WaitU | Sup_WaitT | Sup_Done

text \<open>
  \<^verbatim>\<open>Serve\<close>: at its start, at the \<^verbatim>\<open>select\<close> of line 102, inside the \<^verbatim>\<open>select\<close> of a
  classifier, at line 110 with the reply (or nil), returned, or panicked.
\<close>

datatype spc = S_Start | S_Select | S_Blocked cls msg "cls option"
  | S_Finish "msg option" | S_Done | S_Panic

text \<open>
  The store holds the messages that are passed by pointer: the request at address 0 and
  the copies made by \<^verbatim>\<open>req.Copy()\<close>. \<open>writes\<close> is the log of \<^verbatim>\<open>w.WriteMsg\<close>, \<open>received\<close>
  the log of the replies \<^verbatim>\<open>Serve\<close> took from the result channels. \<open>crashed\<close>: a goroutine
  panicked, which ends the process.
\<close>

record sys =
  heap :: "msg list"
  root_canceled :: bool
  sides :: "cls \<Rightarrow> side"
  sup :: suppc
  srv :: spc
  writes :: "msg list"
  received :: "msg list"
  crashed :: bool

definition side0 :: side where
  "side0 = \<lparr>ctx_canceled = False, chan = None, pc = C_Absent, queryNext = 0,
     ticker_on = False, tick = False, wg = 0, tasks = [], sent = 0, recvd = 0, queries = []\<rparr>"

definition init :: "msg \<Rightarrow> sys" where
  "init req = \<lparr>heap = [req], root_canceled = False, sides = (\<lambda>_. side0), sup = Sup_Absent,
     srv = S_Start, writes = [], received = [], crashed = False\<rparr>"

definition upd_side :: "cls \<Rightarrow> (side \<Rightarrow> side) \<Rightarrow> sys \<Rightarrow> sys" where
  "upd_side c f s = s\<lparr>sides := (sides s)(c := f (sides s c))\<rparr>"

text \<open>\<^verbatim>\<open>ctx.Done()\<close> of a child context is closed by its own cancel or by the root's.\<close>

definition ctx_done :: "sys \<Rightarrow> cls \<Rightarrow> bool" where
  "ctx_done s c \<longleftrightarrow> root_canceled s \<or> ctx_canceled (sides s c)"

section \<open>lookupInServers\<close>

text \<open>
  Lines 17 to 28: the deferred cancel, the return for an empty list, the ticker
  (\<^verbatim>\<open>time.NewTicker\<close> panics for a non-positive interval) and the seeded permit channel.
\<close>

definition lookupInServers_start :: "server \<Rightarrow> cls \<Rightarrow> sys \<Rightarrow> sys option" where
  "lookupInServers_start cfg c s =
     (if pc (sides s c) \<noteq> C_Spawned then None
      else if length (servers cfg c) = 0 then
        Some (upd_side c (\<lambda>d. d\<lparr>ctx_canceled := True, pc := C_Returned\<rparr>) s)
      else if Delay cfg \<le> 0 then Some (s\<lparr>crashed := True\<rparr>)
      else Some (upd_side c (\<lambda>d. d\<lparr>ticker_on := True, tick := False, queryNext := 1,
                   wg := 0, pc := C_Loop 0\<rparr>) s))"

text \<open>\<^verbatim>\<open>wg.Add(1); go doLookup(server)\<close>, and the loop goes to its next server or ends.\<close>

definition admit :: "nat \<Rightarrow> nat \<Rightarrow> resolver \<Rightarrow> side \<Rightarrow> side" where
  "admit n i server d =
     d\<lparr>wg := wg d + 1, tasks := tasks d @ [(server, T_Spawned)],
       pc := (if Suc i < n then C_Loop (Suc i) else C_Wait)\<rparr>"

text \<open>The three cases of the \<^verbatim>\<open>select\<close> in the loop (lines 50 to 59).\<close>

definition loop_ctx_done :: "server \<Rightarrow> cls \<Rightarrow> sys \<Rightarrow> sys option" where
  "loop_ctx_done cfg c s =
     (case pc (sides s c) of
        C_Loop i \<Rightarrow> if ctx_done s c then Some (upd_side c (\<lambda>d. d\<lparr>pc := C_Wait\<rparr>) s) else None
      | _ \<Rightarrow> None)"

definition loop_queryNext :: "server \<Rightarrow> cls \<Rightarrow> sys \<Rightarrow> sys option" where
  "loop_queryNext cfg c s =
     (case pc (sides s c) of
        C_Loop i \<Rightarrow>
          if i < length (servers cfg c) \<and> 0 < queryNext (sides s c) then
            Some (upd_side c (\<lambda>d. admit (length (servers cfg c)) i (servers cfg c ! i)
                                 (d\<lparr>queryNext := queryNext d - 1\<rparr>)) s)
          else None
      | _ \<Rightarrow> None)"

definition loop_ticker :: "server \<Rightarrow> cls \<Rightarrow> sys \<Rightarrow> sys option" where
  "loop_ticker cfg c s =
     (case pc (sides s c) of
        C_Loop i \<Rightarrow>
          if i < length (servers cfg c) \<and> tick (sides s c) then
            Some (upd_side c (\<lambda>d. admit (length (servers cfg c)) i (servers cfg c ! i)
                                 (d\<lparr>tick := False\<rparr>)) s)
          else None
      | _ \<Rightarrow> None)"

text \<open>\<^verbatim>\<open>wg.Wait()\<close> returns, then the deferred \<^verbatim>\<open>ticker.Stop()\<close> and \<^verbatim>\<open>cancel()\<close>.\<close>

definition lookupInServers_return :: "cls \<Rightarrow> sys \<Rightarrow> sys option" where
  "lookupInServers_return c s =
     (if pc (sides s c) = C_Wait \<and> wg (sides s c) = 0 then
        Some (upd_side c (\<lambda>d. d\<lparr>ticker_on := False, ctx_canceled := True, pc := C_Returned\<rparr>) s)
      else None)"

text \<open>The ticker delivers a tick; its channel holds one, further ticks are dropped.\<close>

definition ticker_fires :: "cls \<Rightarrow> sys \<Rightarrow> sys option" where
  "ticker_fires c s =
     (if ticker_on (sides s c) \<and> \<not> tick (sides s c) then
        Some (upd_side c (\<lambda>d. d\<lparr>tick := True\<rparr>) s)
      else None)"

subsection \<open>doLookup\<close>

datatype lookup_result = LookupErr | LookupOk msg

text \<open>
  The task starts: \<^verbatim>\<open>req.Copy()\<close> allocates a copy of the request, and \<^verbatim>\<open>lookup\<close> is called
  with the copy's address and the server.
\<close>

definition doLookup_call :: "cls \<Rightarrow> nat \<Rightarrow> sys \<Rightarrow> sys option" where
  "doLookup_call c i s =
     (if i < length (tasks (sides s c)) then
        (case (tasks (sides s c) ! i, heap s) of
           ((server, T_Spawned), req # _) \<Rightarrow>
             Some (upd_side c (\<lambda>d. d\<lparr>tasks := (tasks d)[i := (server, T_Lookup (length (heap s)))],
                                      queries := queries d @ [server]\<rparr>)
                    (s\<lparr>heap := heap s @ [req]\<rparr>))
         | _ \<Rightarrow> None)
      else None)"

text \<open>
  \<^verbatim>\<open>lookup\<close> returns. What it answers and what it has done to the message it was given
  (\<open>m'\<close> is that message's content afterwards) is the network's and the lookup
  capability's choice. After an error the task goes on to the send on \<^verbatim>\<open>queryNext\<close>;
  after a success the non-blocking send on the result channel follows at once
  (lines 40 to 44).
\<close>

definition doLookup_returns :: "cls \<Rightarrow> nat \<Rightarrow> lookup_result \<Rightarrow> msg \<Rightarrow> sys \<Rightarrow> sys option" where
  "doLookup_returns c i res m' s =
     (if i < length (tasks (sides s c)) then
        (case tasks (sides s c) ! i of
           (server, T_Lookup a) \<Rightarrow>
             (let s1 = s\<lparr>heap := (heap s)[a := m']\<rparr> in
              case res of
                LookupErr \<Rightarrow>
                  Some (upd_side c (\<lambda>d. d\<lparr>tasks := (tasks d)[i := (server, T_Permit)]\<rparr>) s1)
              | LookupOk reply \<Rightarrow>
                  if chan (sides s c) = None then
                    Some (upd_side c (\<lambda>d. d\<lparr>chan := Some reply, sent := sent d + 1,
                                             tasks := (tasks d)[i := (server, T_Cancel)]\<rparr>) s1)
                  else
                    Some (upd_side c (\<lambda>d. d\<lparr>tasks := (tasks d)[i := (server, T_Cancel)]\<rparr>) s1))
         | _ \<Rightarrow> None)
      else None)"

text \<open>
  The rest of a task: the send \<^verbatim>\<open>queryNext <- struct{}{}\<close> (it blocks while the channel,
  of capacity \<^verbatim>\<open>len(servers)\<close>, is full) or \<^verbatim>\<open>cancel()\<close>; then the deferred \<^verbatim>\<open>wg.Done()\<close>.
\<close>

definition doLookup_finish :: "server \<Rightarrow> cls \<Rightarrow> nat \<Rightarrow> sys \<Rightarrow> sys option" where
  "doLookup_finish cfg c i s =
     (if i < length (tasks (sides s c)) then
        (case tasks (sides s c) ! i of
           (server, T_Permit) \<Rightarrow>
             if queryNext (sides s c) < length (servers cfg c) then
               Some (upd_side c (\<lambda>d. d\<lparr>queryNext := queryNext d + 1, wg := wg d - 1,
                                        tasks := (tasks d)[i := (server, T_Done)]\<rparr>) s)
             else None
         | (server, T_Cancel) \<Rightarrow>
             Some (upd_side c (\<lambda>d. d\<lparr>ctx_canceled := True, wg := wg d - 1,
                                      tasks := (tasks d)[i := (server, T_Done)]\<rparr>) s)
         | _ \<Rightarrow> None)
      else None)"

section \<open>The supervisory goroutine\<close>

text \<open>Lines 85 to 89: \<^verbatim>\<open><-uctx.Done()\<close>, then \<^verbatim>\<open><-tctx.Done()\<close>, then \<^verbatim>\<open>cancel()\<close>.\<close>

definition supervisor :: "sys \<Rightarrow> sys option" where
  "supervisor s =
     (case sup s of
        Sup_WaitU \<Rightarrow> if ctx_done s Untrusted then Some (s\<lparr>sup := Sup_WaitT\<rparr>) else None
      | Sup_WaitT \<Rightarrow>
          if ctx_done s Trusted then Some (s\<lparr>root_canceled := True, sup := Sup_Done\<rparr>) else None
      | _ \<Rightarrow> None)"

section \<open>Serve\<close>

text \<open>
  Lines 69 to 100. The index \<^verbatim>\<open>req.Question[0]\<close> panics when the request has no
  question. On the blacklist path the reply is written and \<^verbatim>\<open>Serve\<close> returns. Otherwise
  the contexts, the supervisor and the channels are made, the request is normalized in
  place, the trusted coordinator is spawned, and the untrusted one is spawned or its
  context canceled.
\<close>

definition Serve_start :: "server \<Rightarrow> sys \<Rightarrow> sys option" where
  "Serve_start cfg s =
     (if srv s \<noteq> S_Start then None
      else case heap s of
        [] \<Rightarrow> None
      | req # rest \<Rightarrow>
         (case Question req of
            [] \<Rightarrow> Some (s\<lparr>srv := S_Panic, crashed := True\<rparr>)
          | q # _ \<Rightarrow>
             (let qName = Name q in
              if DomainBlacklist cfg qName then
                Some (s\<lparr>writes := writes s @ [SetReply new_Msg req], srv := S_Done\<rparr>)
              else
                let s1 = s\<lparr>heap := normalizeRequest cfg req # rest, sup := Sup_WaitU\<rparr>;
                    s2 = upd_side Trusted (\<lambda>d. d\<lparr>pc := C_Spawned\<rparr>) s1;
                    s3 = (if \<not> DomainPolluted cfg qName
                          then upd_side Untrusted (\<lambda>d. d\<lparr>pc := C_Spawned\<rparr>) s2
                          else upd_side Untrusted (\<lambda>d. d\<lparr>ctx_canceled := True\<rparr>) s2)
                in Some (s3\<lparr>srv := S_Select\<rparr>))))"

text \<open>Where \<^verbatim>\<open>Serve\<close> is after a classifier's verdict.\<close>

fun after_verdict :: "verdict \<Rightarrow> spc" where
  "after_verdict (Return m) = S_Finish (Some m)"
| "after_verdict (Select w rep ch) = S_Blocked w rep ch"

text \<open>
  A receive from the result channel of class \<open>c\<close>: in the \<^verbatim>\<open>select\<close> of line 102 (the
  reply is classified by the rule of its class, with the other class's channel), or in
  the \<^verbatim>\<open>select\<close> of a classifier that waits on this channel.
\<close>

definition take_chan :: "cls \<Rightarrow> msg \<Rightarrow> sys \<Rightarrow> sys" where
  "take_chan c rep s =
     (upd_side c (\<lambda>d. d\<lparr>chan := None, recvd := recvd d + 1\<rparr>) s)\<lparr>received := received s @ [rep]\<rparr>"

definition Serve_receive :: "server \<Rightarrow> cls \<Rightarrow> sys \<Rightarrow> sys option" where
  "Serve_receive cfg c s =
     (case chan (sides s c) of
        None \<Rightarrow> None
      | Some rep \<Rightarrow>
         (case srv s of
            S_Select \<Rightarrow>
              Some ((take_chan c rep s)\<lparr>srv := after_verdict
                 (case c of
                    Untrusted \<Rightarrow> processReply cfg rep (Some Trusted) processUntrustedAnswer
                  | Trusted \<Rightarrow> processReply cfg rep (Some Untrusted) processTrustedAnswer)\<rparr>)
          | S_Blocked w fallback (Some c') \<Rightarrow>
              if c' = c then
                Some ((take_chan c rep s)\<lparr>srv := after_verdict (select_received cfg w rep)\<rparr>)
              else None
          | _ \<Rightarrow> None))"

text \<open>The case \<^verbatim>\<open><-ctx.Done()\<close> of the three \<^verbatim>\<open>select\<close>s that wait on the root context.\<close>

definition Serve_ctx_done :: "sys \<Rightarrow> sys option" where
  "Serve_ctx_done s =
     (if \<not> root_canceled s then None
      else case srv s of
        S_Select \<Rightarrow> Some (s\<lparr>srv := S_Finish None\<rparr>)
      | S_Blocked w fallback ch \<Rightarrow> Some (s\<lparr>srv := S_Finish (Some fallback)\<rparr>)
      | _ \<Rightarrow> None)"

text \<open>Lines 110 to 120: \<^verbatim>\<open>cancel()\<close>, the reply or the synthesized one, \<^verbatim>\<open>w.WriteMsg\<close>.\<close>

definition Serve_finish :: "sys \<Rightarrow> sys option" where
  "Serve_finish s =
     (case (srv s, heap s) of
        (S_Finish r, req # _) \<Rightarrow>
          (let reply = (case r of Some m \<Rightarrow> m\<lparr>Compress := True\<rparr>
                                | None \<Rightarrow> SetReply new_Msg req)
           in Some (s\<lparr>root_canceled := True, writes := writes s @ [reply], srv := S_Done\<rparr>))
      | _ \<Rightarrow> None)"

section \<open>Schedules\<close>

text \<open>
  The goroutines of one request run interleaved. An action is one step of one of them,
  or of the environment (a tick of a ticker, the outcome of a lookup); a schedule is a
  list of actions. An action that is not enabled gives \<open>None\<close>; after a panic nothing
  runs.
\<close>

datatype action =
    AServe_start
  | AServe_receive cls
  | AServe_ctx_done
  | AServe_finish
  | ASupervisor
  | ALookupInServers_start cls
  | ALoop_ctx_done cls
  | ALoop_queryNext cls
  | ALoop_ticker cls
  | ALookupInServers_return cls
  | ATicker_fires cls
  | ADoLookup_call cls nat
  | ADoLookup_returns cls nat lookup_result msg
  | ADoLookup_finish cls nat

fun step :: "server \<Rightarrow> action \<Rightarrow> sys \<Rightarrow> sys option" where
  "step cfg AServe_start s = Serve_start cfg s"
| "step cfg (AServe_receive c) s = Serve_receive cfg c s"
| "step cfg AServe_ctx_done s = Serve_ctx_done s"
| "step cfg AServe_finish s = Serve_finish s"
| "step cfg ASupervisor s = supervisor s"
| "step cfg (ALookupInServers_start c) s = lookupInServers_start cfg c s"
| "step cfg (ALoop_ctx_done c) s = loop_ctx_done cfg c s"
| "step cfg (ALoop_queryNext c) s = loop_queryNext cfg c s"
| "step cfg (ALoop_ticker c) s = loop_ticker cfg c s"
| "step cfg (ALookupInServers_return c) s = lookupInServers_return c s"
| "step cfg (ATicker_fires c) s = ticker_fires c s"
| "step cfg (ADoLookup_call c i) s = doLookup_call c i s"
| "step cfg (ADoLookup_returns c i res m') s = doLookup_returns c i res m' s"
| "step cfg (ADoLookup_finish c i) s = doLookup_finish cfg c i s"

definition fire :: "server \<Rightarrow> action \<Rightarrow> sys \<Rightarrow> sys option" where
  "fire cfg a s = (if crashed s then None else step cfg a s)"

fun run :: "server \<Rightarrow> sys \<Rightarrow> action list \<Rightarrow> sys option" where
  "run cfg s [] = Some s"
| "run cfg s (a # as) = (case fire cfg a s of None \<Rightarrow> None | Some s' \<Rightarrow> run cfg s' as)"

text \<open>The state a schedule leads to (the initial state when it cannot run).\<close>

definition after :: "server \<Rightarrow> msg \<Rightarrow> action list \<Rightarrow> sys" where
  "after cfg req acts = (case run cfg (init req) acts of Some s \<Rightarrow> s | None \<Rightarrow> init req)"

definition side_of :: "cls \<Rightarrow> sys \<Rightarrow> side" where
  "side_of c s = sides s c"

section \<open>Example inputs\<close>

text \<open>
  A request for one name, and a configuration with one resolver of each class, the
  default delay of 0.1 s, the domestic range 36.0.0.0/8 and one blacklisted address.
\<close>

definition ex_req :: msg where
  "ex_req = \<lparr>MsgId = 7, Response = False, Opcode = 0, RecursionDesired = False, Rcode = 0,
     Compress = False, Question = [\<lparr>Name = ''example.com.'', Qtype = 1, Qclass = 1\<rparr>],
     Answer = [], UDPSize = None\<rparr>"

definition ex_server :: server where
  "ex_server = \<lparr>DomainBlacklist = (\<lambda>n. n = ''blocked.example.''),
     DomainPolluted = (\<lambda>n. n = ''polluted.example.''),
     IPBlacklist = (\<lambda>a. (a = [10, 10, 10, 10], False)),
     ChinaCIDR = (\<lambda>a. (case a of [] \<Rightarrow> False | b # _ \<Rightarrow> b = 36, False)),
     Bidirectional = True,
     TrustedServers = [''8.8.8.8:53''],
     UntrustedServers = [''114.114.114.114:53''],
     Delay = 100000000, TCPOnly = False, UDPMaxSize = 4096\<rparr>"

text \<open>The request as the query tasks see it, and a reply to it with given answers.\<close>

definition ex_copy :: msg where
  "ex_copy = normalizeRequest ex_server ex_req"

definition ex_reply :: "rr list \<Rightarrow> msg" where
  "ex_reply rrs = (SetReply new_Msg ex_copy)\<lparr>Answer := rrs\<rparr>"

text \<open>
  The name is polluted, so only the trusted resolver is asked. The ticker's tick is there
  at the first \<^verbatim>\<open>select\<close> of the loop and is the case taken; the lookup fails.
\<close>

definition polluted_server :: server where
  "polluted_server = ex_server\<lparr>DomainPolluted := (\<lambda>n. n = ''example.com.'')\<rparr>"

definition blocked_permit :: "action list" where
  "blocked_permit = [AServe_start, ALookupInServers_start Trusted, ATicker_fires Trusted,
     ALoop_ticker Trusted, ADoLookup_call Trusted 0,
     ADoLookup_returns Trusted 0 LookupErr ex_copy, ASupervisor, ATicker_fires Trusted]"

text \<open>
  Two trusted resolvers, the second admitted by the ticker; the first answers, \<^verbatim>\<open>Serve\<close>
  takes the answer from the channel, then the second answers.
\<close>

definition two_trusted :: server where
  "two_trusted = ex_server\<lparr>TrustedServers := [''8.8.8.8:53'', ''8.8.4.4:53'']\<rparr>"

definition second_send :: "action list" where
  "second_send = [AServe_start, ALookupInServers_start Trusted, ALoop_queryNext Trusted,
     ATicker_fires Trusted, ALoop_ticker Trusted, ADoLookup_call Trusted 0,
     ADoLookup_call Trusted 1,
     ADoLookup_returns Trusted 0 (LookupOk (ex_reply [A [5, 6, 7, 8]])) ex_copy,
     AServe_receive Trusted,
     ADoLookup_returns Trusted 1 (LookupOk (ex_reply [A [9, 9, 9, 9]])) ex_copy]"

text \<open>
  Four trusted resolvers that are slow to answer: the ticker admits the second, the third
  and the fourth before the first one answers.
\<close>

definition four_trusted :: server where
  "four_trusted = ex_server\<lparr>TrustedServers :=
     [''8.8.8.8:53'', ''8.8.4.4:53'', ''1.1.1.1:53'', ''9.9.9.9:53'']\<rparr>"

definition slow_first :: "action list" where
  "slow_first = [AServe_start, ALookupInServers_start Trusted, ALoop_queryNext Trusted,
     ADoLookup_call Trusted 0, ATicker_fires Trusted, ALoop_ticker Trusted,
     ADoLookup_call Trusted 1, ATicker_fires Trusted, ALoop_ticker Trusted,
     ADoLookup_call Trusted 2, ATicker_fires Trusted, ALoop_ticker Trusted,
     ADoLookup_call Trusted 3,
     ADoLookup_returns Trusted 0 (LookupOk (ex_reply [A [5, 6, 7, 8]])) ex_copy]"

text \<open>Both resolver lists are empty.\<close>

definition no_servers :: server where
  "no_servers = ex_server\<lparr>TrustedServers := [], UntrustedServers := []\<rparr>"

text \<open>The untrusted resolver answers with an address inside the domestic range.\<close>

definition domestic_answer :: "action list" where
  "domestic_answer = [AServe_start, ALookupInServers_start Untrusted, ALoop_queryNext Untrusted,
     ADoLookup_call Untrusted 0,
     ADoLookup_returns Untrusted 0 (LookupOk (ex_reply [A [36, 0, 0, 1]])) ex_copy]"

section \<open>Evaluation and basic facts\<close>

lemmas act_defs = Serve_start_def Serve_receive_def Serve_ctx_done_def Serve_finish_def
  supervisor_def lookupInServers_start_def loop_ctx_done_def loop_queryNext_def loop_ticker_def
  lookupInServers_return_def ticker_fires_def doLookup_call_def doLookup_returns_def
  doLookup_finish_def

lemmas ex_defs = ex_req_def ex_server_def ex_copy_def ex_reply_def new_Msg_def SetReply_def
  normalizeRequest_def setUDPSize_def polluted_server_def two_trusted_def four_trusted_def
  no_servers_def

lemmas run_defs = fire_def act_defs upd_side_def take_chan_def admit_def init_def side0_def
  ctx_done_def side_of_def after_def processReply_def processUntrustedAnswer_def
  processTrustedAnswer_def

lemma upd_side_simps [simp]:
  "sides (upd_side c f s) c' = (if c' = c then f (sides s c) else sides s c')"
  "heap (upd_side c f s) = heap s"
  "root_canceled (upd_side c f s) = root_canceled s"
  "sup (upd_side c f s) = sup s"
  "srv (upd_side c f s) = srv s"
  "writes (upd_side c f s) = writes s"
  "received (upd_side c f s) = received s"
  "crashed (upd_side c f s) = crashed s"
  by (simp_all add: upd_side_def)

lemma cls_neq [simp]:
  "(c \<noteq> Untrusted) = (c = Trusted)" "(c \<noteq> Trusted) = (c = Untrusted)"
  "(Untrusted \<noteq> c) = (c = Trusted)" "(Trusted \<noteq> c) = (c = Untrusted)"
  by (cases c; simp)+

lemma processReply_loop_cnames:
  "processReply_loop process rep (map CNAME ts @ A a # rest) = process rep a"
  "processReply_loop process rep (map CNAME ts @ AAAA a # rest) = process rep a"
  by (induction ts) simp_all

section \<open>The classifier's rule for untrusted replies\<close>

text \<open>
  C6. An untrusted reply whose representative address is not in the IP blacklist and is
  in the domestic set is returned by \<^verbatim>\<open>processUntrustedAnswer\<close> before its \<^verbatim>\<open>select\<close>,
  whatever channel it was given. So when \<^verbatim>\<open>Serve\<close> takes such a reply (aliases, then an
  address record) from the untrusted channel, it goes on to line 110 with this reply in
  one step, and the trusted side, with its channel, and the root context are as they were.
\<close>

theorem processUntrustedAnswer_domestic:
  assumes "\<not> fst (IPBlacklist cfg a)" and "fst (ChinaCIDR cfg a)"
  shows "processUntrustedAnswer cfg rep a trusted = Return rep
    \<and> (srv s = S_Select \<and> chan (sides s Untrusted) = Some rep
         \<and> (Answer rep = map CNAME ts @ A a # rest \<or> Answer rep = map CNAME ts @ AAAA a # rest)
       \<longrightarrow> (\<exists>s'. Serve_receive cfg Untrusted s = Some s' \<and> srv s' = S_Finish (Some rep)
              \<and> sides s' Trusted = sides s Trusted \<and> root_canceled s' = root_canceled s))"
proof -
  have ret: "processUntrustedAnswer cfg rep a ch = Return rep" for ch
    using assms by (simp add: processUntrustedAnswer_def)
  have "processReply cfg rep (Some Trusted) processUntrustedAnswer = Return rep"
    if "Answer rep = map CNAME ts @ A a # rest \<or> Answer rep = map CNAME ts @ AAAA a # rest"
    using that ret by (auto simp: processReply_def processReply_loop_cnames)
  then show ?thesis
    using ret by (auto simp: Serve_receive_def take_chan_def)
qed

theorem processUntrustedAnswer_domestic_witness:
  "\<not> fst (IPBlacklist ex_server [36, 0, 0, 1]) \<and> fst (ChinaCIDR ex_server [36, 0, 0, 1])
   \<and> srv (after ex_server ex_req domestic_answer) = S_Select
   \<and> chan (sides (after ex_server ex_req domestic_answer) Untrusted) = Some (ex_reply [A [36, 0, 0, 1]])
   \<and> Answer (ex_reply [A [36, 0, 0, 1]]) = map CNAME [] @ A [36, 0, 0, 1] # []
   \<and> processUntrustedAnswer ex_server (ex_reply [A [36, 0, 0, 1]]) [36, 0, 0, 1] (Some Trusted)
       = Return (ex_reply [A [36, 0, 0, 1]])
   \<and> (\<exists>s'. Serve_receive ex_server Untrusted (after ex_server ex_req domestic_answer) = Some s'
         \<and> srv s' = S_Finish (Some (ex_reply [A [36, 0, 0, 1]]))
         \<and> sides s' Trusted = sides (after ex_server ex_req domestic_answer) Trusted
         \<and> root_canceled s' = root_canceled (after ex_server ex_req domestic_answer))"
proof -
  have h1: "\<not> fst (IPBlacklist ex_server [36, 0, 0, 1])"
    by (simp add: ex_server_def)
  have h2: "fst (ChinaCIDR ex_server [36, 0, 0, 1])"
    by (simp add: ex_server_def)
  have h3: "srv (after ex_server ex_req domestic_answer) = S_Select"
    by (simp add: domestic_answer_def ex_defs run_defs)
  have h4: "chan (sides (after ex_server ex_req domestic_answer) Untrusted)
      = Some (ex_reply [A [36, 0, 0, 1]])"
    by (simp add: domestic_answer_def ex_defs run_defs)
  have h5: "Answer (ex_reply [A [36, 0, 0, 1]]) = map CNAME [] @ A [36, 0, 0, 1] # []"
    by (simp add: ex_defs)
  show ?thesis
    using h1 h2 h3 h4 h5
      processUntrustedAnswer_domestic [OF h1 h2, of "ex_reply [A [36, 0, 0, 1]]" "Some Trusted"
        "after ex_server ex_req domestic_answer" "[]" "[]"]
    by blast
qed

section \<open>A request that is never answered\<close>

text \<open>
  C1. \<^verbatim>\<open>Serve\<close> does not write a reply for every request. \<^verbatim>\<open>queryNext\<close> has room for
  \<^verbatim>\<open>len(servers)\<close> permits, but it is seeded with one and every failed lookup sends one
  more. With one trusted resolver and a polluted name: the first \<^verbatim>\<open>select\<close> of the loop
  takes the ticker's case, so the seed stays in the channel; the lookup fails, and its
  task blocks on the send for ever. \<^verbatim>\<open>wg.Wait()\<close> does not return, the trusted context
  is never canceled, the supervisor never cancels the root, and \<^verbatim>\<open>Serve\<close> stays in the
  \<^verbatim>\<open>select\<close> of line 102: nothing was written, nothing has panicked, and no step of any
  goroutine, no tick and no lookup outcome is possible any more.
\<close>

theorem Serve_blocked_for_ever:
  "run polluted_server (init ex_req) blocked_permit = Some (after polluted_server ex_req blocked_permit)
   \<and> writes (after polluted_server ex_req blocked_permit) = []
   \<and> srv (after polluted_server ex_req blocked_permit) = S_Select
   \<and> \<not> crashed (after polluted_server ex_req blocked_permit)
   \<and> (\<forall>a. fire polluted_server a (after polluted_server ex_req blocked_permit) = None)"
proof -
  have "fire polluted_server a (after polluted_server ex_req blocked_permit) = None" for a
    by (cases a) (simp_all add: blocked_permit_def ex_defs run_defs split: cls.splits)
  then show ?thesis
    by (simp add: blocked_permit_def ex_defs run_defs)
qed

section \<open>Counterexamples\<close>

text \<open>
  C2, as stated, fails: in the schedule \<open>second_send\<close> two values are placed on the
  trusted result channel. The second successful lookup finds the slot empty, because
  \<^verbatim>\<open>Serve\<close> has taken the first value, and its send is not dropped.
\<close>

theorem second_value_placed:
  "map_option (sent \<circ> side_of Trusted) (run two_trusted (init ex_req) second_send) = Some 2
   \<and> map_option (chan \<circ> side_of Trusted) (run two_trusted (init ex_req) second_send)
       = Some (Some (ex_reply [A [9, 9, 9, 9]]))"
  by (simp add: second_send_def ex_defs run_defs)

text \<open>
  C8, as stated, fails: \<^verbatim>\<open>lookupInServers\<close> with an empty list cancels the context it was
  given (the deferred \<^verbatim>\<open>cancel()\<close> of line 17 runs at the return of line 19).
\<close>

theorem empty_list_cancels_context:
  "servers no_servers Trusted = []
   \<and> \<not> ctx_canceled (sides (after no_servers ex_req [AServe_start]) Trusted)
   \<and> map_option (ctx_canceled \<circ> side_of Trusted)
       (lookupInServers_start no_servers Trusted (after no_servers ex_req [AServe_start])) = Some True"
  by (simp add: ex_defs run_defs)

text \<open>
  C9, as stated, fails: in the schedule \<open>slow_first\<close> the first resolver of four is the
  first to succeed, and at that moment four queries have been admitted; the other three
  are inside \<^verbatim>\<open>lookup\<close> and the wait group counts four.
\<close>

theorem four_outstanding_at_first_success:
  "map_option (map snd \<circ> tasks \<circ> side_of Trusted) (run four_trusted (init ex_req) slow_first)
     = Some [T_Cancel, T_Lookup 2, T_Lookup 3, T_Lookup 4]
   \<and> map_option (wg \<circ> side_of Trusted) (run four_trusted (init ex_req) slow_first) = Some 4
   \<and> map_option (sent \<circ> side_of Trusted) (run four_trusted (init ex_req) slow_first) = Some 1"
  by (simp add: slow_first_def ex_defs run_defs)

end
